theory Spec2Isabelle
  imports Complex_Main "HOL-Library.Word" "HOL-Library.AList" "HOL-Library.Sublist"
begin

section \<open>JavaScript strings\<close>

text \<open>
  A JavaScript string is a sequence of UTF-16 code units; \<open>.length\<close> counts code units.
  String literals of the source are written with \<open>lit\<close>.
\<close>

type_synonym jsstring = "16 word list"

definition lit :: "string \<Rightarrow> jsstring" where
  "lit s = map of_char s"

text \<open>
  \<open>String.prototype.trim\<close> removes leading and trailing WhiteSpace and LineTerminator
  code points: TAB, LF, VT, FF, CR, SPACE, NBSP, the category Zs (U+1680, U+2000 to U+200A,
  U+202F, U+205F, U+3000), LS, PS and ZWNBSP. All of them are single code units.
\<close>

definition isWhiteSpace :: "16 word \<Rightarrow> bool" where
  "isWhiteSpace c \<longleftrightarrow>
     c \<in> set [0x9, 0xA, 0xB, 0xC, 0xD, 0x20, 0xA0, 0x1680,
              0x2000, 0x2001, 0x2002, 0x2003, 0x2004, 0x2005, 0x2006, 0x2007, 0x2008, 0x2009,
              0x200A, 0x2028, 0x2029, 0x202F, 0x205F, 0x3000, 0xFEFF]"

definition trim :: "jsstring \<Rightarrow> jsstring" where
  "trim s = rev (dropWhile isWhiteSpace (rev (dropWhile isWhiteSpace s)))"

section \<open>JavaScript values\<close>

text \<open>
  Values as \<open>JSON.parse\<close> and \<open>yaml.load\<close> build them. An object keeps its keys in
  insertion order. Numbers are the integers. \<open>undefined\<close> is no value of this type: an
  expression that may be \<open>undefined\<close> has type \<open>jsval option\<close>.
\<close>

datatype jsval =
    JNull
  | JBool bool
  | JNum int
  | JStr jsstring
  | JArr "jsval list"
  | JObj "(jsstring \<times> jsval) list"

section \<open>types/index.ts\<close>

datatype response_status = StatusSuccess | StatusError

text \<open>
  \<open>repo_result\<close> is declared with \<open>result\<close> and \<open>files\<close>; the results view also reads an
  undeclared \<open>generated_files\<close>.
\<close>

record RepoResult =
  result :: jsstring
  files :: "jsstring list"
  generated_files :: "jsstring list option"

record ApiResponse =
  status :: response_status
  analysis_result :: "jsstring option"
  download_result :: "jsstring option"
  repo_result :: "RepoResult option"
  error :: "jsstring option"
  traceback :: "jsstring option"

section \<open>App.tsx: submission dispatch\<close>

datatype input_mode = Direct | Guided

datatype input_type = Chat | Url | File

datatype task_status = Idle | Processing | Success | Error

text \<open>The selected \<open>File\<close>; \<open>path\<close> is what the desktop shell adds to it.\<close>

record js_file =
  name :: jsstring
  path :: "jsval option"

record app_state =
  inputMode :: input_mode
  inputType :: input_type
  textInput :: jsstring
  fileInput :: "js_file option"
  taskStatus :: task_status
  apiResult :: "ApiResponse option"
  showGuidedAnalysis :: bool
  enableIndexing :: bool

text \<open>The value of \<open>inputType\<close> as the string the source holds.\<close>

fun input_type_str :: "input_type \<Rightarrow> jsstring" where
  "input_type_str Chat = lit ''chat''"
| "input_type_str Url = lit ''url''"
| "input_type_str File = lit ''file''"

text \<open>
  What a handler does, in program order: state setters, the native bridge (\<open>invoke\<close> with
  the command and its argument object), the network (\<open>fetch\<close> with the URL, the method,
  the headers and the object given to \<open>JSON.stringify\<close> as body) and \<open>alert\<close>.
\<close>

datatype event =
    SetTaskStatus task_status
  | SetApiResult "ApiResponse option"
  | SetShowGuidedAnalysis bool
  | Invoke jsstring "(jsstring \<times> jsval option) list"
  | Fetch jsstring jsstring "(jsstring \<times> jsstring) list" "(jsstring \<times> jsval) list"
  | Alert jsstring

text \<open>
  What comes back from an awaited call: a string or an already parsed object, taken to
  have the declared type \<open>ApiResponse\<close>. A rejected promise or a thrown error is \<open>Inl\<close> of
  its \<open>message\<close> property, \<open>None\<close> when what was thrown has none (the bridge rejects with a
  plain string).
\<close>

datatype response = RString jsstring | RObject ApiResponse

text \<open>
  The collaborators of \<open>handleSubmit\<close>: the bridge command \<open>process_file\<close>, \<open>fetch\<close>
  whose result carries the outcome of \<open>.json()\<close>, and \<open>JSON.parse\<close>.
\<close>

record backend =
  process_file :: "jsval option \<Rightarrow> jsstring option + response"
  fetch :: "jsstring \<Rightarrow> (jsstring \<times> jsval) list \<Rightarrow>
            jsstring option + (jsstring option + response)"
  JSON_parse :: "jsstring \<Rightarrow> jsstring option + ApiResponse"

text \<open>The \<open>catch\<close> block of \<open>handleSubmit\<close>.\<close>

definition submit_catch :: "jsstring option \<Rightarrow> event list" where
  "submit_catch message =
     [SetApiResult (Some \<lparr>status = StatusError, analysis_result = None, download_result = None,
                          repo_result = None, error = message, traceback = None\<rparr>),
      SetTaskStatus Error]"

text \<open>From \<open>const data = ...\<close> to the end of the \<open>try\<close> block.\<close>

definition submit_response :: "backend \<Rightarrow> response \<Rightarrow> event list" where
  "submit_response be r =
     (case (case r of RString t \<Rightarrow> JSON_parse be t | RObject d \<Rightarrow> Inr d) of
        Inl message \<Rightarrow> submit_catch message
      | Inr data \<Rightarrow>
          if status data = StatusError then
            submit_catch (Some (case error data of
                                  Some e \<Rightarrow> if e \<noteq> [] then e
                                            else lit ''An unknown error occurred.''
                                | None \<Rightarrow> lit ''An unknown error occurred.''))
          else [SetApiResult (Some data), SetTaskStatus Success])"

text \<open>\<open>requirements || textInput\<close>: an absent or empty \<open>requirements\<close> gives \<open>textInput\<close>.\<close>

definition input_source :: "app_state \<Rightarrow> jsstring option \<Rightarrow> jsstring" where
  "input_source s requirements =
     (case requirements of
        Some r \<Rightarrow> if r \<noteq> [] then r else textInput s
      | None \<Rightarrow> textInput s)"

definition text_url :: jsstring where
  "text_url = lit ''http://localhost:8000/process/text''"

definition text_body :: "app_state \<Rightarrow> jsstring \<Rightarrow> (jsstring \<times> jsval) list" where
  "text_body s inputSource =
     [(lit ''input_source'', JStr inputSource),
      (lit ''input_type'', JStr (input_type_str (inputType s))),
      (lit ''enable_indexing'', JBool (enableIndexing s))]"

text \<open>
  \<open>handleSubmit\<close>, called with \<open>requirements\<close> by the guided wizard and without by the
  submit button. The first test, \<open>inputType === 'file' && fileInput\<close>, holds when the type
  is file and a file is selected.
\<close>

definition handleSubmit :: "backend \<Rightarrow> app_state \<Rightarrow> jsstring option \<Rightarrow> event list" where
  "handleSubmit be s requirements =
     [SetTaskStatus Processing, SetApiResult None, SetShowGuidedAnalysis False] @
     (let inputSource = input_source s requirements in
      case (if inputType s = File then fileInput s else None) of
        Some f \<Rightarrow>
          Invoke (lit ''process_file'') [(lit ''filePath'', path f)] #
          (case process_file be (path f) of
             Inl message \<Rightarrow> submit_catch message
           | Inr r \<Rightarrow> submit_response be r)
      | None \<Rightarrow>
          if trim inputSource \<noteq> [] then
            Fetch text_url (lit ''POST'') [(lit ''Content-Type'', lit ''application/json'')]
              (text_body s inputSource) #
            (case fetch be text_url (text_body s inputSource) of
               Inl message \<Rightarrow> submit_catch message
             | Inr (Inl message) \<Rightarrow> submit_catch message
             | Inr (Inr r) \<Rightarrow> submit_response be r)
          else [Alert (lit ''Please provide an input.''), SetTaskStatus Idle])"

text \<open>The state after the setters of a handler have run, in order.\<close>

fun apply_event :: "app_state \<Rightarrow> event \<Rightarrow> app_state" where
  "apply_event s (SetTaskStatus t) = s\<lparr>taskStatus := t\<rparr>"
| "apply_event s (SetApiResult r) = s\<lparr>apiResult := r\<rparr>"
| "apply_event s (SetShowGuidedAnalysis b) = s\<lparr>showGuidedAnalysis := b\<rparr>"
| "apply_event s (Invoke c a) = s"
| "apply_event s (Fetch u m h b) = s"
| "apply_event s (Alert m) = s"

definition run_events :: "app_state \<Rightarrow> event list \<Rightarrow> app_state" where
  "run_events s es = foldl apply_event s es"

fun is_network_call :: "event \<Rightarrow> bool" where
  "is_network_call (Fetch u m h b) = True"
| "is_network_call e = False"

fun is_bridge_call :: "event \<Rightarrow> bool" where
  "is_bridge_call (Invoke c a) = True"
| "is_bridge_call e = False"

fun is_alert :: "event \<Rightarrow> bool" where
  "is_alert (Alert m) = True"
| "is_alert e = False"

text \<open>Inputs for the concrete instances below.\<close>

definition example_backend :: backend where
  "example_backend =
     \<lparr>process_file = (\<lambda>p. Inl None),
      fetch = (\<lambda>u b. Inr (Inr (RObject
                \<lparr>status = StatusSuccess, analysis_result = None, download_result = None,
                 repo_result = None, error = None, traceback = None\<rparr>))),
      JSON_parse = (\<lambda>t. Inl None)\<rparr>"

definition example_state :: "input_type \<Rightarrow> jsstring \<Rightarrow> js_file option \<Rightarrow> app_state" where
  "example_state ty txt f =
     \<lparr>inputMode = Direct, inputType = ty, textInput = txt, fileInput = f,
      taskStatus = Success,
      apiResult = Some \<lparr>status = StatusSuccess, analysis_result = Some (lit ''old''),
                        download_result = None, repo_result = None, error = None,
                        traceback = None\<rparr>,
      showGuidedAnalysis = False, enableIndexing = True\<rparr>"

definition example_file :: js_file where
  "example_file = \<lparr>name = lit ''paper.pdf'', path = Some (JStr (lit ''/tmp/paper.pdf''))\<rparr>"

section \<open>App.tsx: progress display\<close>

text \<open>
  The \<open>currentStep\<close> given to the progress display, \<open>Math.floor(progress / 12.5)\<close>.
  \<open>progress\<close> is a JavaScript number; the division is taken in the reals, which is what the
  double division gives on the integers from 0 to 100 up to an error far below the distance
  of a quotient to the next integer.
\<close>

definition progress_currentStep :: "real \<Rightarrow> int" where
  "progress_currentStep progress = \<lfloor>progress / 12.5\<rfloor>"

section \<open>ResultsDisplay.tsx\<close>

datatype tab = Analysis | Download | Implementation | Files

text \<open>The argument of \<open>useState\<close> for \<open>activeTab\<close>.\<close>

definition activeTab_initial :: tab where
  "activeTab_initial = Implementation"

text \<open>Rendered elements: tag, class name and children; event handlers are left out.\<close>

datatype jsx = Element jsstring jsstring "jsx list" | Text jsstring

fun texts :: "jsx \<Rightarrow> jsstring list" where
  "texts (Text t) = [t]"
| "texts (Element tag cls children) = concat (map texts children)"

text \<open>\<open>x || d\<close> for an optional string: an absent or empty \<open>x\<close> gives \<open>d\<close>.\<close>

definition str_or :: "jsstring option \<Rightarrow> jsstring \<Rightarrow> jsstring" where
  "str_or x d = (case x of Some t \<Rightarrow> if t \<noteq> [] then t else d | None \<Rightarrow> d)"

text \<open>\<open>file.split('/').pop()\<close>: what follows the last slash.\<close>

definition basename :: "jsstring \<Rightarrow> jsstring" where
  "basename f = rev (takeWhile (\<lambda>c. c \<noteq> 0x2F) (rev f))"

definition file_item :: "jsstring \<Rightarrow> jsx" where
  "file_item f =
     Element (lit ''div'') (lit ''file-item'')
       [Element (lit ''span'') (lit ''file-icon'') [Text [0xD83D, 0xDCC4]],
        Element (lit ''span'') (lit ''file-name'') [Text (basename f)],
        Element (lit ''button'') (lit ''download-btn'') [Text (lit ''Download'')]]"

text \<open>
  \<open>renderTabContent\<close> of the current revision (the one with export and download).
  \<open>stringify\<close> is \<open>JSON.stringify(_, null, 2)\<close> on a present \<open>repo_result\<close>; on
  \<open>undefined\<close> it returns \<open>undefined\<close>, hence the placeholder.
  \<open>res\<close> is the \<open>result\<close> property of the component.
\<close>

definition renderTabContent :: "(RepoResult \<Rightarrow> jsstring) \<Rightarrow> ApiResponse \<Rightarrow> tab \<Rightarrow> jsx" where
  "renderTabContent stringify res activeTab =
     (case activeTab of
        Analysis \<Rightarrow>
          Element (lit ''div'') (lit ''tab-content analysis-content'')
            [Element (lit ''h3'') [] [Text (lit ''Analysis Phase'')],
             Element (lit ''div'') (lit ''result-card'')
               [Element (lit ''pre'') []
                  [Text (str_or (analysis_result res) (lit ''No analysis results available.''))]]]
      | Download \<Rightarrow>
          Element (lit ''div'') (lit ''tab-content download-content'')
            [Element (lit ''h3'') [] [Text (lit ''Download Phase'')],
             Element (lit ''div'') (lit ''result-card'')
               [Element (lit ''pre'') []
                  [Text (str_or (download_result res) (lit ''No download results available.''))]]]
      | Implementation \<Rightarrow>
          Element (lit ''div'') (lit ''tab-content implementation-content'')
            [Element (lit ''h3'') [] [Text (lit ''Implementation Phase'')],
             Element (lit ''div'') (lit ''result-card'')
               [Element (lit ''pre'') []
                  [Text (str_or (map_option stringify (repo_result res))
                           (lit ''No implementation results available.''))]]]
      | Files \<Rightarrow>
          (let files = (case repo_result res of
                          None \<Rightarrow> []
                        | Some rr \<Rightarrow> (case generated_files rr of None \<Rightarrow> [] | Some fs \<Rightarrow> fs))
           in Element (lit ''div'') (lit ''tab-content files-content'')
                [Element (lit ''h3'') [] [Text (lit ''Generated Files'')],
                 Element (lit ''div'') (lit ''file-list'')
                   (if length files > 0 then map file_item files
                    else [Element (lit ''p'') [] [Text (lit ''No files generated.'')]])]))"

definition example_stringify :: "RepoResult \<Rightarrow> jsstring" where
  "example_stringify rr = lit ''{}''"

definition example_response :: ApiResponse where
  "example_response =
     \<lparr>status = StatusSuccess, analysis_result = None, download_result = None,
      repo_result = None, error = None, traceback = None\<rparr>"

section \<open>Settings.tsx\<close>

subsection \<open>The JavaScript operations the panel uses\<close>



text \<open>
  \<open>o?.k\<close>, and \<open>o.k\<close> on an \<open>o\<close> that is neither null nor undefined. None of the keys
  read by the panel is a property of a string, a number, a boolean or an array.
\<close>

fun get_opt :: "jsval option \<Rightarrow> jsstring \<Rightarrow> jsval option" where
  "get_opt (Some (JObj kvs)) k = map_of kvs k"
| "get_opt v k = None"

text \<open>An optional chain \<open>o?.k1?.k2 ...\<close>.\<close>

fun lookup :: "jsval option \<Rightarrow> jsstring list \<Rightarrow> jsval option" where
  "lookup v [] = v"
| "lookup v (k # ks) = lookup (get_opt v k) ks"








subsection \<open>What the panel calls\<close>








subsection \<open>State of the panel\<close>

datatype status_msg = MsgSuccess jsstring | MsgError jsstring

text \<open>
  The form fields are declared as strings, a boolean and a number, and hold at run time
  whatever \<open>loadConfiguration\<close> found in the documents.
\<close>

record settings_state =
  isLoading :: bool
  statusMsg :: "status_msg option"
  config :: "jsval option"
  secrets :: "jsval option"
  openaiKey :: jsval
  openaiBaseUrl :: jsval
  anthropicKey :: jsval
  braveKey :: jsval
  bochaKey :: jsval
  searchServer :: jsval
  docSegEnabled :: jsval
  docSegThreshold :: jsval
  defaultModel :: jsval


text \<open>The \<open>onChange\<close> handlers of the form.\<close>

datatype edit =
    SetOpenaiKey jsstring
  | SetOpenaiBaseUrl jsstring
  | SetAnthropicKey jsstring
  | SetBraveKey jsstring
  | SetBochaKey jsstring
  | SetSearchServer jsstring
  | SetDefaultModel jsstring
  | SetDocSegEnabled bool
  | SetDocSegThreshold int


subsection \<open>loadConfiguration\<close>



subsection \<open>handleSave\<close>








subsection \<open>The recognised fields\<close>




subsection \<open>Documents by paths\<close>


text \<open>
  \<open>sect p d\<close>: in the document \<open>d\<close>, what lies on the way to the field at path \<open>p\<close> is,
  as far as it is present, an object. Nothing is asked of the field itself.
\<close>

fun sect :: "jsstring list \<Rightarrow> jsval \<Rightarrow> bool" where
  "sect [] d = True"
| "sect (k # ks) (JObj kvs) = (case map_of kvs k of None \<Rightarrow> True | Some c \<Rightarrow> sect ks c)"
| "sect (k # ks) d = False"




















section \<open>GuidedAnalysis.tsx\<close>

datatype RequirementAnalysisStep = Input | Questions | Summary | Editing

datatype importance = High | Medium | Low

record Question =
  question :: jsstring
  category :: jsstring
  importance :: importance
  hint :: "jsstring option"

record wizard_state =
  currentStep :: RequirementAnalysisStep
  initialRequirement :: jsstring
  questions :: "Question list"
  answers :: "jsstring \<rightharpoonup> jsstring"
  detailedRequirements :: jsstring
  editFeedback :: jsstring
  isLoading :: bool
  error :: "jsstring option"

text \<open>The arguments of the \<open>useState\<close> calls.\<close>

definition wizard_initial :: wizard_state where
  "wizard_initial =
     \<lparr>currentStep = Input, initialRequirement = [], questions = [], answers = Map.empty,
      detailedRequirements = [], editFeedback = [], isLoading = False, error = None\<rparr>"

text \<open>
  The bridge commands of the wizard. A rejection is \<open>Inl\<close> of the rejected value as the
  template literal prints it.
\<close>

record wizard_bridge =
  generate_questions :: "jsstring \<Rightarrow> jsstring + Question list"
  edit_requirements :: "jsstring \<Rightarrow> jsstring \<Rightarrow> jsstring + jsstring"

text \<open>A bridge call: the command and its argument object.\<close>

type_synonym invocation = "jsstring \<times> (jsstring \<times> jsval) list"

definition handleInitialSubmit ::
  "wizard_bridge \<Rightarrow> wizard_state \<Rightarrow> wizard_state \<times> invocation list" where
  "handleInitialSubmit br s =
     (if length (trim (initialRequirement s)) < 10 then
        (s\<lparr>error :=
             Some (lit ''Please provide at least a brief description (more than 10 characters)'')\<rparr>,
         [])
      else
        let s1 = s\<lparr>isLoading := True, error := None\<rparr>;
            s2 = (case generate_questions br (trim (initialRequirement s)) of
                    Inr response \<Rightarrow> s1\<lparr>questions := response, currentStep := Questions\<rparr>
                  | Inl err \<Rightarrow> s1\<lparr>error := Some (lit ''Failed to generate questions: '' @ err)\<rparr>)
        in (s2\<lparr>isLoading := False\<rparr>,
            [(lit ''generate_questions'',
              [(lit ''initialRequirement'', JStr (trim (initialRequirement s)))])]))"

definition handleApplyEdit ::
  "wizard_bridge \<Rightarrow> wizard_state \<Rightarrow> wizard_state \<times> invocation list" where
  "handleApplyEdit br s =
     (if trim (editFeedback s) = [] then
        (s\<lparr>error := Some (lit ''Please provide your modification request'')\<rparr>, [])
      else
        let s1 = s\<lparr>isLoading := True, error := None\<rparr>;
            s2 = (case edit_requirements br (detailedRequirements s) (trim (editFeedback s)) of
                    Inr response \<Rightarrow>
                      s1\<lparr>detailedRequirements := response, editFeedback := [],
                         currentStep := Summary\<rparr>
                  | Inl err \<Rightarrow> s1\<lparr>error := Some (lit ''Failed to edit requirements: '' @ err)\<rparr>)
        in (s2\<lparr>isLoading := False\<rparr>,
            [(lit ''edit_requirements'',
              [(lit ''currentRequirements'', JStr (detailedRequirements s)),
               (lit ''editFeedback'', JStr (trim (editFeedback s)))])]))"

definition handleStartOver :: "wizard_state \<Rightarrow> wizard_state" where
  "handleStartOver s =
     s\<lparr>currentStep := Input, initialRequirement := [], questions := [], answers := Map.empty,
       detailedRequirements := [], editFeedback := [], error := None\<rparr>"

definition example_bridge :: "jsstring + jsstring \<Rightarrow> wizard_bridge" where
  "example_bridge r =
     \<lparr>generate_questions = (\<lambda>t. Inl (lit ''offline'')),
      edit_requirements = (\<lambda>c f. r)\<rparr>"

definition example_wizard :: "RequirementAnalysisStep \<Rightarrow> jsstring \<Rightarrow> jsstring \<Rightarrow> wizard_state" where
  "example_wizard st req fb =
     \<lparr>currentStep = st, initialRequirement = req, questions = [],
      answers = [lit ''0'' \<mapsto> lit ''yes''],
      detailedRequirements = lit ''A web app'', editFeedback = fb, isLoading = False,
      error = None\<rparr>"

section \<open>Facts about the dispatch\<close>

lemma submit_catch_calls:
  "filter is_network_call (submit_catch m) = []"
  "filter is_bridge_call (submit_catch m) = []"
  "filter is_alert (submit_catch m) = []"
  by (simp_all add: submit_catch_def)

lemma submit_response_calls:
  "filter is_network_call (submit_response be r) = []"
  "filter is_bridge_call (submit_response be r) = []"
  "filter is_alert (submit_response be r) = []"
  by (simp_all add: submit_response_def submit_catch_calls split: sum.splits response.splits)

lemma handleSubmit_file:
  assumes "inputType s = File" and "fileInput s = Some f"
  shows "handleSubmit be s requirements =
           [SetTaskStatus Processing, SetApiResult None, SetShowGuidedAnalysis False,
            Invoke (lit ''process_file'') [(lit ''filePath'', path f)]] @
           (case process_file be (path f) of
              Inl message \<Rightarrow> submit_catch message
            | Inr r \<Rightarrow> submit_response be r)"
  using assms by (simp add: handleSubmit_def)

lemma handleSubmit_text:
  assumes "inputType s \<noteq> File \<or> fileInput s = None"
    and "trim (input_source s requirements) \<noteq> []"
  shows "handleSubmit be s requirements =
           [SetTaskStatus Processing, SetApiResult None, SetShowGuidedAnalysis False,
            Fetch text_url (lit ''POST'') [(lit ''Content-Type'', lit ''application/json'')]
              (text_body s (input_source s requirements))] @
           (case fetch be text_url (text_body s (input_source s requirements)) of
              Inl message \<Rightarrow> submit_catch message
            | Inr (Inl message) \<Rightarrow> submit_catch message
            | Inr (Inr r) \<Rightarrow> submit_response be r)"
  using assms by (auto simp add: handleSubmit_def Let_def)

lemma handleSubmit_rejected:
  assumes "inputType s \<noteq> File \<or> fileInput s = None"
    and "trim (input_source s requirements) = []"
  shows "handleSubmit be s requirements =
           [SetTaskStatus Processing, SetApiResult None, SetShowGuidedAnalysis False,
            Alert (lit ''Please provide an input.''), SetTaskStatus Idle]"
  using assms by (auto simp add: handleSubmit_def Let_def)

lemma tail_calls:
  "filter is_network_call
     (case r of Inl message \<Rightarrow> submit_catch message | Inr x \<Rightarrow> submit_response be x) = []"
  "filter is_bridge_call
     (case r of Inl message \<Rightarrow> submit_catch message | Inr x \<Rightarrow> submit_response be x) = []"
  "filter is_alert
     (case r of Inl message \<Rightarrow> submit_catch message | Inr x \<Rightarrow> submit_response be x) = []"
  "filter is_network_call
     (case q of Inl message \<Rightarrow> submit_catch message
      | Inr (Inl message) \<Rightarrow> submit_catch message
      | Inr (Inr x) \<Rightarrow> submit_response be x) = []"
  "filter is_bridge_call
     (case q of Inl message \<Rightarrow> submit_catch message
      | Inr (Inl message) \<Rightarrow> submit_catch message
      | Inr (Inr x) \<Rightarrow> submit_response be x) = []"
  "filter is_alert
     (case q of Inl message \<Rightarrow> submit_catch message
      | Inr (Inl message) \<Rightarrow> submit_catch message
      | Inr (Inr x) \<Rightarrow> submit_response be x) = []"
  by (simp_all add: submit_catch_calls submit_response_calls split: sum.splits)

section \<open>Submission dispatch\<close>

text \<open>
  C1. A submission of type chat or url issues exactly one network POST, to the text
  endpoint, whose body has exactly the fields \<open>input_source\<close>, \<open>input_type\<close> and
  \<open>enable_indexing\<close>, and no bridge call, in both of these cases: the guided wizard
  passes requirements that are non-empty after trimming, which are then the text posted
  whatever the text field holds; or no requirements (or empty ones) are passed and the
  text field is non-empty after trimming, which is then the text posted. A submission of
  type file with a selected file issues exactly one bridge call, \<open>process_file\<close>, and no
  network call.
\<close>

theorem handleSubmit_dispatch:
  "((inputType s = Chat \<or> inputType s = Url) \<and> requirements = Some r \<and> trim r \<noteq> [] \<longrightarrow>
      filter is_network_call (handleSubmit be s requirements) =
        [Fetch (lit ''http://localhost:8000/process/text'') (lit ''POST'')
           [(lit ''Content-Type'', lit ''application/json'')]
           [(lit ''input_source'', JStr r),
            (lit ''input_type'', JStr (input_type_str (inputType s))),
            (lit ''enable_indexing'', JBool (enableIndexing s))]] \<and>
      filter is_bridge_call (handleSubmit be s requirements) = []) \<and>
   ((inputType s = Chat \<or> inputType s = Url) \<and>
    (requirements = None \<or> requirements = Some []) \<and> trim (textInput s) \<noteq> [] \<longrightarrow>
      filter is_network_call (handleSubmit be s requirements) =
        [Fetch (lit ''http://localhost:8000/process/text'') (lit ''POST'')
           [(lit ''Content-Type'', lit ''application/json'')]
           [(lit ''input_source'', JStr (textInput s)),
            (lit ''input_type'', JStr (input_type_str (inputType s))),
            (lit ''enable_indexing'', JBool (enableIndexing s))]] \<and>
      filter is_bridge_call (handleSubmit be s requirements) = []) \<and>
   (inputType s = File \<and> fileInput s = Some f \<longrightarrow>
      filter is_bridge_call (handleSubmit be s requirements) =
        [Invoke (lit ''process_file'') [(lit ''filePath'', path f)]] \<and>
      filter is_network_call (handleSubmit be s requirements) = [])"
proof (intro conjI impI)
  assume a: "(inputType s = Chat \<or> inputType s = Url) \<and> requirements = Some r \<and> trim r \<noteq> []"
  then have ty: "inputType s \<noteq> File \<or> fileInput s = None" by auto
  from a have "r \<noteq> []" by (auto simp: trim_def)
  with a have src: "input_source s requirements = r" by (simp add: input_source_def)
  with a have ne: "trim (input_source s requirements) \<noteq> []" by simp
  show "filter is_network_call (handleSubmit be s requirements) =
        [Fetch (lit ''http://localhost:8000/process/text'') (lit ''POST'')
           [(lit ''Content-Type'', lit ''application/json'')]
           [(lit ''input_source'', JStr r),
            (lit ''input_type'', JStr (input_type_str (inputType s))),
            (lit ''enable_indexing'', JBool (enableIndexing s))]]"
    by (simp add: handleSubmit_text [OF ty ne] tail_calls text_url_def text_body_def src)
  show "filter is_bridge_call (handleSubmit be s requirements) = []"
    by (simp add: handleSubmit_text [OF ty ne] tail_calls)
next
  assume a: "(inputType s = Chat \<or> inputType s = Url) \<and>
    (requirements = None \<or> requirements = Some []) \<and> trim (textInput s) \<noteq> []"
  then have ty: "inputType s \<noteq> File \<or> fileInput s = None" by auto
  from a have src: "input_source s requirements = textInput s"
    by (auto simp: input_source_def)
  with a have ne: "trim (input_source s requirements) \<noteq> []" by simp
  show "filter is_network_call (handleSubmit be s requirements) =
        [Fetch (lit ''http://localhost:8000/process/text'') (lit ''POST'')
           [(lit ''Content-Type'', lit ''application/json'')]
           [(lit ''input_source'', JStr (textInput s)),
            (lit ''input_type'', JStr (input_type_str (inputType s))),
            (lit ''enable_indexing'', JBool (enableIndexing s))]]"
    by (simp add: handleSubmit_text [OF ty ne] tail_calls text_url_def text_body_def src)
  show "filter is_bridge_call (handleSubmit be s requirements) = []"
    by (simp add: handleSubmit_text [OF ty ne] tail_calls)
next
  assume b: "inputType s = File \<and> fileInput s = Some f"
  then have ty: "inputType s = File" and fi: "fileInput s = Some f" by simp_all
  show "filter is_bridge_call (handleSubmit be s requirements) =
        [Invoke (lit ''process_file'') [(lit ''filePath'', path f)]]"
    by (simp add: handleSubmit_file [OF ty fi] tail_calls)
  show "filter is_network_call (handleSubmit be s requirements) = []"
    by (simp add: handleSubmit_file [OF ty fi] tail_calls)
qed

theorem handleSubmit_dispatch_witness:
  "(inputType (example_state Chat [] None) = Chat \<and> trim (lit ''Build a CLI'') \<noteq> [] \<and>
    trim (textInput (example_state Chat [] None)) = []) \<and>
   filter is_network_call
     (handleSubmit example_backend (example_state Chat [] None) (Some (lit ''Build a CLI''))) =
     [Fetch (lit ''http://localhost:8000/process/text'') (lit ''POST'')
        [(lit ''Content-Type'', lit ''application/json'')]
        [(lit ''input_source'', JStr (lit ''Build a CLI'')),
         (lit ''input_type'', JStr (lit ''chat'')),
         (lit ''enable_indexing'', JBool True)]] \<and>
   filter is_bridge_call
     (handleSubmit example_backend (example_state Chat [] None) (Some (lit ''Build a CLI''))) = [] \<and>
   (inputType (example_state Url (lit '' https://a.io '') None) = Url \<and>
    trim (textInput (example_state Url (lit '' https://a.io '') None)) \<noteq> []) \<and>
   filter is_network_call
     (handleSubmit example_backend (example_state Url (lit '' https://a.io '') None) None) =
     [Fetch (lit ''http://localhost:8000/process/text'') (lit ''POST'')
        [(lit ''Content-Type'', lit ''application/json'')]
        [(lit ''input_source'', JStr (lit '' https://a.io '')),
         (lit ''input_type'', JStr (lit ''url'')),
         (lit ''enable_indexing'', JBool True)]] \<and>
   filter is_bridge_call
     (handleSubmit example_backend (example_state Url (lit '' https://a.io '') None) None) = [] \<and>
   (inputType (example_state File [] (Some example_file)) = File \<and>
    fileInput (example_state File [] (Some example_file)) = Some example_file) \<and>
   filter is_bridge_call
     (handleSubmit example_backend (example_state File [] (Some example_file)) None) =
     [Invoke (lit ''process_file'') [(lit ''filePath'', Some (JStr (lit ''/tmp/paper.pdf'')))]] \<and>
   filter is_network_call
     (handleSubmit example_backend (example_state File [] (Some example_file)) None) = []"
  using handleSubmit_dispatch
          [of "example_state Chat [] None" "Some (lit ''Build a CLI'')" "lit ''Build a CLI''"
              example_backend example_file]
        handleSubmit_dispatch
          [of "example_state Url (lit '' https://a.io '') None" None "[]" example_backend
              example_file]
        handleSubmit_dispatch
          [of "example_state File [] (Some example_file)" None "[]" example_backend example_file]
  by (simp add: example_state_def example_file_def trim_def lit_def isWhiteSpace_def)

text \<open>
  C8. A submission with an empty trimmed text and no selected file issues no network call
  and no bridge call, warns with \<open>Please provide an input.\<close> before anything is awaited,
  and leaves the task status at idle.
\<close>

theorem handleSubmit_empty_rejected:
  "fileInput s = None \<and> trim (input_source s requirements) = [] \<longrightarrow>
     handleSubmit be s requirements =
       [SetTaskStatus Processing, SetApiResult None, SetShowGuidedAnalysis False,
        Alert (lit ''Please provide an input.''), SetTaskStatus Idle] \<and>
     filter is_network_call (handleSubmit be s requirements) = [] \<and>
     filter is_bridge_call (handleSubmit be s requirements) = [] \<and>
     filter is_alert (handleSubmit be s requirements) = [Alert (lit ''Please provide an input.'')] \<and>
     taskStatus (run_events s (handleSubmit be s requirements)) = Idle"
proof
  assume a: "fileInput s = None \<and> trim (input_source s requirements) = []"
  then have ty: "inputType s \<noteq> File \<or> fileInput s = None"
    and em: "trim (input_source s requirements) = []" by simp_all
  show "handleSubmit be s requirements =
       [SetTaskStatus Processing, SetApiResult None, SetShowGuidedAnalysis False,
        Alert (lit ''Please provide an input.''), SetTaskStatus Idle] \<and>
     filter is_network_call (handleSubmit be s requirements) = [] \<and>
     filter is_bridge_call (handleSubmit be s requirements) = [] \<and>
     filter is_alert (handleSubmit be s requirements) = [Alert (lit ''Please provide an input.'')] \<and>
     taskStatus (run_events s (handleSubmit be s requirements)) = Idle"
    by (simp add: handleSubmit_rejected [OF ty em] run_events_def)
qed

theorem handleSubmit_empty_rejected_witness:
  "(fileInput (example_state Chat (lit ''   '') None) = None \<and>
    trim (input_source (example_state Chat (lit ''   '') None) (Some [])) = []) \<and>
   filter is_network_call
     (handleSubmit example_backend (example_state Chat (lit ''   '') None) (Some [])) = [] \<and>
   filter is_bridge_call
     (handleSubmit example_backend (example_state Chat (lit ''   '') None) (Some [])) = [] \<and>
   filter is_alert
     (handleSubmit example_backend (example_state Chat (lit ''   '') None) (Some [])) =
     [Alert (lit ''Please provide an input.'')] \<and>
   taskStatus (run_events (example_state Chat (lit ''   '') None)
     (handleSubmit example_backend (example_state Chat (lit ''   '') None) (Some []))) = Idle"
  using handleSubmit_empty_rejected
          [of "example_state Chat (lit ''   '') None" "Some []" example_backend]
  by (simp add: example_state_def input_source_def trim_def lit_def isWhiteSpace_def
        run_events_def)

text \<open>
  C9. A submission of type file with no selected file and a non-empty trimmed text issues
  exactly one network POST to the text endpoint, with \<open>input_type\<close> \<open>file\<close>; there is no
  bridge call and no warning.
\<close>

theorem handleSubmit_file_type_fallback:
  "inputType s = File \<and> fileInput s = None \<and> trim (input_source s requirements) \<noteq> [] \<longrightarrow>
     filter is_network_call (handleSubmit be s requirements) =
       [Fetch (lit ''http://localhost:8000/process/text'') (lit ''POST'')
          [(lit ''Content-Type'', lit ''application/json'')]
          [(lit ''input_source'', JStr (input_source s requirements)),
           (lit ''input_type'', JStr (lit ''file'')),
           (lit ''enable_indexing'', JBool (enableIndexing s))]] \<and>
     filter is_bridge_call (handleSubmit be s requirements) = [] \<and>
     filter is_alert (handleSubmit be s requirements) = []"
proof
  assume a: "inputType s = File \<and> fileInput s = None \<and> trim (input_source s requirements) \<noteq> []"
  then have ty: "inputType s \<noteq> File \<or> fileInput s = None"
    and ne: "trim (input_source s requirements) \<noteq> []" by simp_all
  from a have "input_type_str (inputType s) = lit ''file''" by simp
  then show "filter is_network_call (handleSubmit be s requirements) =
       [Fetch (lit ''http://localhost:8000/process/text'') (lit ''POST'')
          [(lit ''Content-Type'', lit ''application/json'')]
          [(lit ''input_source'', JStr (input_source s requirements)),
           (lit ''input_type'', JStr (lit ''file'')),
           (lit ''enable_indexing'', JBool (enableIndexing s))]] \<and>
     filter is_bridge_call (handleSubmit be s requirements) = [] \<and>
     filter is_alert (handleSubmit be s requirements) = []"
    by (simp add: handleSubmit_text [OF ty ne] tail_calls text_url_def text_body_def)
qed

theorem handleSubmit_file_type_fallback_witness:
  "(inputType (example_state File (lit ''notes'') None) = File \<and>
    fileInput (example_state File (lit ''notes'') None) = None \<and>
    trim (input_source (example_state File (lit ''notes'') None) None) \<noteq> []) \<and>
   filter is_network_call
     (handleSubmit example_backend (example_state File (lit ''notes'') None) None) =
     [Fetch (lit ''http://localhost:8000/process/text'') (lit ''POST'')
        [(lit ''Content-Type'', lit ''application/json'')]
        [(lit ''input_source'', JStr (lit ''notes'')),
         (lit ''input_type'', JStr (lit ''file'')),
         (lit ''enable_indexing'', JBool True)]] \<and>
   filter is_bridge_call
     (handleSubmit example_backend (example_state File (lit ''notes'') None) None) = [] \<and>
   filter is_alert
     (handleSubmit example_backend (example_state File (lit ''notes'') None) None) = []"
  using handleSubmit_file_type_fallback
          [of "example_state File (lit ''notes'') None" None example_backend]
  by (simp add: example_state_def input_source_def trim_def lit_def isWhiteSpace_def)

text \<open>
  C10. Every call of \<open>handleSubmit\<close> starts by setting the task status to processing and
  the stored result to null, before any check and before any outbound call or warning.
  Hence a submission rejected for empty input ends with status idle and no stored result.
\<close>

theorem handleSubmit_resets_first:
  "take 2 (handleSubmit be s requirements) = [SetTaskStatus Processing, SetApiResult None] \<and>
   taskStatus (run_events s (take 2 (handleSubmit be s requirements))) = Processing \<and>
   apiResult (run_events s (take 2 (handleSubmit be s requirements))) = None \<and>
   ((inputType s \<noteq> File \<or> fileInput s = None) \<and> trim (input_source s requirements) = [] \<longrightarrow>
      taskStatus (run_events s (handleSubmit be s requirements)) = Idle \<and>
      apiResult (run_events s (handleSubmit be s requirements)) = None)"
proof (intro conjI impI)
  show t: "take 2 (handleSubmit be s requirements) = [SetTaskStatus Processing, SetApiResult None]"
    by (simp add: handleSubmit_def)
  show "taskStatus (run_events s (take 2 (handleSubmit be s requirements))) = Processing"
    by (simp add: t run_events_def)
  show "apiResult (run_events s (take 2 (handleSubmit be s requirements))) = None"
    by (simp add: t run_events_def)
next
  assume a: "(inputType s \<noteq> File \<or> fileInput s = None) \<and> trim (input_source s requirements) = []"
  then have ty: "inputType s \<noteq> File \<or> fileInput s = None"
    and em: "trim (input_source s requirements) = []" by simp_all
  show "taskStatus (run_events s (handleSubmit be s requirements)) = Idle"
    by (simp add: handleSubmit_rejected [OF ty em] run_events_def)
  show "apiResult (run_events s (handleSubmit be s requirements)) = None"
    by (simp add: handleSubmit_rejected [OF ty em] run_events_def)
qed

theorem handleSubmit_resets_first_witness:
  "apiResult (example_state Chat [] (Some example_file)) \<noteq> None \<and>
   taskStatus (example_state Chat [] (Some example_file)) = Success \<and>
   inputType (example_state Chat [] (Some example_file)) = Chat \<and>
   trim (input_source (example_state Chat [] (Some example_file)) None) = [] \<and>
   taskStatus (run_events (example_state Chat [] (Some example_file))
     (handleSubmit example_backend (example_state Chat [] (Some example_file)) None)) = Idle \<and>
   apiResult (run_events (example_state Chat [] (Some example_file))
     (handleSubmit example_backend (example_state Chat [] (Some example_file)) None)) = None"
  using handleSubmit_resets_first
          [of example_backend "example_state Chat [] (Some example_file)" None]
  by (simp add: example_state_def input_source_def trim_def run_events_def)

section \<open>Guided wizard\<close>

text \<open>
  C2. When the trimmed initial requirement has fewer than 10 characters,
  \<open>handleInitialSubmit\<close> only sets the inline error message: the step is unchanged (it
  stays at Input), \<open>generate_questions\<close> is not invoked and the entered text is kept.
\<close>

theorem handleInitialSubmit_too_short:
  "length (trim (initialRequirement s)) < 10 \<longrightarrow>
     handleInitialSubmit br s =
       (s\<lparr>error :=
            Some (lit ''Please provide at least a brief description (more than 10 characters)'')\<rparr>,
        []) \<and>
     currentStep (fst (handleInitialSubmit br s)) = currentStep s \<and>
     (currentStep s = Input \<longrightarrow> currentStep (fst (handleInitialSubmit br s)) = Input) \<and>
     snd (handleInitialSubmit br s) = [] \<and>
     error (fst (handleInitialSubmit br s)) \<noteq> None \<and>
     initialRequirement (fst (handleInitialSubmit br s)) = initialRequirement s"
  by (simp add: handleInitialSubmit_def)

theorem handleInitialSubmit_too_short_witness:
  "length (trim (initialRequirement (example_wizard Input (lit ''  a web app '') []))) < 10 \<and>
   currentStep (fst (handleInitialSubmit (example_bridge (Inl []))
                       (example_wizard Input (lit ''  a web app '') []))) = Input \<and>
   snd (handleInitialSubmit (example_bridge (Inl []))
          (example_wizard Input (lit ''  a web app '') [])) = [] \<and>
   error (fst (handleInitialSubmit (example_bridge (Inl []))
                 (example_wizard Input (lit ''  a web app '') []))) =
     Some (lit ''Please provide at least a brief description (more than 10 characters)'') \<and>
   initialRequirement (fst (handleInitialSubmit (example_bridge (Inl []))
                              (example_wizard Input (lit ''  a web app '') []))) =
     lit ''  a web app ''"
  using handleInitialSubmit_too_short
          [of "example_wizard Input (lit ''  a web app '') []" "example_bridge (Inl [])"]
  by (simp add: example_wizard_def trim_def lit_def isWhiteSpace_def)

text \<open>
  C5. \<open>handleStartOver\<close> puts the step back to Input and clears the initial requirement,
  the questions, the answers, the detailed requirements, the edit feedback and the error
  message, from any step: the result is the initial state of the wizard, up to the loading
  flag, which the handler does not touch.
\<close>

theorem handleStartOver_initial:
  "handleStartOver s = wizard_initial\<lparr>isLoading := isLoading s\<rparr> \<and>
   currentStep (handleStartOver s) = Input \<and>
   initialRequirement (handleStartOver s) = [] \<and>
   questions (handleStartOver s) = [] \<and>
   answers (handleStartOver s) = Map.empty \<and>
   detailedRequirements (handleStartOver s) = [] \<and>
   editFeedback (handleStartOver s) = [] \<and>
   error (handleStartOver s) = None"
  by (simp add: handleStartOver_def wizard_initial_def)

text \<open>
  C6. \<open>handleApplyEdit\<close> with an empty trimmed edit feedback makes no bridge call and only
  sets an error. Otherwise it calls \<open>edit_requirements\<close> once with the current
  requirements and the trimmed feedback; on success the requirements become the response,
  the feedback is cleared and the step becomes Summary; on failure the step, the feedback
  and the requirements are unchanged and an error message is set.
\<close>

theorem handleApplyEdit_cases:
  "(trim (editFeedback s) = [] \<longrightarrow>
      handleApplyEdit br s =
        (s\<lparr>error := Some (lit ''Please provide your modification request'')\<rparr>, [])) \<and>
   (trim (editFeedback s) \<noteq> [] \<longrightarrow>
      snd (handleApplyEdit br s) =
        [(lit ''edit_requirements'',
          [(lit ''currentRequirements'', JStr (detailedRequirements s)),
           (lit ''editFeedback'', JStr (trim (editFeedback s)))])]) \<and>
   (trim (editFeedback s) \<noteq> [] \<and>
    edit_requirements br (detailedRequirements s) (trim (editFeedback s)) = Inr response \<longrightarrow>
      fst (handleApplyEdit br s) =
        s\<lparr>detailedRequirements := response, editFeedback := [], currentStep := Summary,
          isLoading := False, error := None\<rparr>) \<and>
   (trim (editFeedback s) \<noteq> [] \<and>
    edit_requirements br (detailedRequirements s) (trim (editFeedback s)) = Inl err \<longrightarrow>
      fst (handleApplyEdit br s) =
        s\<lparr>isLoading := False, error := Some (lit ''Failed to edit requirements: '' @ err)\<rparr> \<and>
      currentStep (fst (handleApplyEdit br s)) = currentStep s \<and>
      editFeedback (fst (handleApplyEdit br s)) = editFeedback s \<and>
      detailedRequirements (fst (handleApplyEdit br s)) = detailedRequirements s)"
  by (simp add: handleApplyEdit_def Let_def)

theorem handleApplyEdit_cases_witness:
  "(trim (editFeedback (example_wizard Editing [] (lit ''  ''))) = [] \<and>
    handleApplyEdit (example_bridge (Inr (lit ''A mobile app'')))
      (example_wizard Editing [] (lit ''  '')) =
      ((example_wizard Editing [] (lit ''  ''))
         \<lparr>error := Some (lit ''Please provide your modification request'')\<rparr>, [])) \<and>
   (trim (editFeedback (example_wizard Editing [] (lit '' mobile ''))) \<noteq> [] \<and>
    edit_requirements (example_bridge (Inr (lit ''A mobile app''))) (lit ''A web app'')
      (lit ''mobile'') = Inr (lit ''A mobile app'') \<and>
    handleApplyEdit (example_bridge (Inr (lit ''A mobile app'')))
      (example_wizard Editing [] (lit '' mobile '')) =
      ((example_wizard Summary [] []) \<lparr>detailedRequirements := lit ''A mobile app''\<rparr>,
       [(lit ''edit_requirements'',
         [(lit ''currentRequirements'', JStr (lit ''A web app'')),
          (lit ''editFeedback'', JStr (lit ''mobile''))])])) \<and>
   (edit_requirements (example_bridge (Inl (lit ''timeout''))) (lit ''A web app'')
      (lit ''mobile'') = Inl (lit ''timeout'') \<and>
    fst (handleApplyEdit (example_bridge (Inl (lit ''timeout'')))
      (example_wizard Editing [] (lit '' mobile ''))) =
      (example_wizard Editing [] (lit '' mobile ''))
         \<lparr>error := Some (lit ''Failed to edit requirements: timeout'')\<rparr>)"
  using handleApplyEdit_cases
          [of "example_wizard Editing [] (lit ''  '')" "example_bridge (Inr (lit ''A mobile app''))"
              "lit ''A mobile app''" "[]"]
        handleApplyEdit_cases
          [of "example_wizard Editing [] (lit '' mobile '')"
              "example_bridge (Inr (lit ''A mobile app''))" "lit ''A mobile app''" "[]"]
        handleApplyEdit_cases
          [of "example_wizard Editing [] (lit '' mobile '')"
              "example_bridge (Inl (lit ''timeout''))" "[]" "lit ''timeout''"]
  by (simp add: example_wizard_def example_bridge_def trim_def lit_def isWhiteSpace_def
        prod_eq_iff)

section \<open>Results display\<close>

text \<open>
  C7. For a response with status success and no analysis, download or repository result,
  each tab renders its literal placeholder: \<open>No analysis results available.\<close>,
  \<open>No download results available.\<close>, \<open>No implementation results available.\<close> and, for
  the file list, \<open>No files generated.\<close>. Rendering is a total function of the response and
  the tab, and the tab selected first is Implementation.
\<close>

theorem renderTabContent_placeholders:
  "status res = StatusSuccess \<and> analysis_result res = None \<and> download_result res = None \<and>
   repo_result res = None \<longrightarrow>
     texts (renderTabContent stringify res Analysis) =
       [lit ''Analysis Phase'', lit ''No analysis results available.''] \<and>
     texts (renderTabContent stringify res Download) =
       [lit ''Download Phase'', lit ''No download results available.''] \<and>
     texts (renderTabContent stringify res Implementation) =
       [lit ''Implementation Phase'', lit ''No implementation results available.''] \<and>
     texts (renderTabContent stringify res Files) =
       [lit ''Generated Files'', lit ''No files generated.''] \<and>
     texts (renderTabContent stringify res activeTab_initial) =
       [lit ''Implementation Phase'', lit ''No implementation results available.'']"
  by (simp add: renderTabContent_def str_or_def activeTab_initial_def)

theorem renderTabContent_placeholders_witness:
  "(status example_response = StatusSuccess \<and> analysis_result example_response = None \<and>
    download_result example_response = None \<and> repo_result example_response = None) \<and>
   texts (renderTabContent example_stringify example_response Analysis) =
     [lit ''Analysis Phase'', lit ''No analysis results available.''] \<and>
   texts (renderTabContent example_stringify example_response Download) =
     [lit ''Download Phase'', lit ''No download results available.''] \<and>
   texts (renderTabContent example_stringify example_response Implementation) =
     [lit ''Implementation Phase'', lit ''No implementation results available.''] \<and>
   texts (renderTabContent example_stringify example_response Files) =
     [lit ''Generated Files'', lit ''No files generated.''] \<and>
   activeTab_initial = Implementation"
  using renderTabContent_placeholders [of example_response example_stringify]
  by (simp add: example_response_def activeTab_initial_def)

section \<open>Progress display\<close>

text \<open>
  C4. For a progress value from 0 to 100 the stage index is the floor of the value divided
  by 12.5: it lies between 0 and 8 and is the number of the band of width 12.5 that holds
  the value. The values 0, 12, 50, 87 and 100 give the indices 0, 0, 4, 6 and 8.
\<close>

theorem progress_currentStep_floor:
  "(0 \<le> p \<and> p \<le> 100 \<longrightarrow>
      progress_currentStep p = \<lfloor>p / 12.5\<rfloor> \<and>
      0 \<le> progress_currentStep p \<and> progress_currentStep p \<le> 8 \<and>
      12.5 * of_int (progress_currentStep p) \<le> p \<and>
      p < 12.5 * (of_int (progress_currentStep p) + 1)) \<and>
   progress_currentStep 0 = 0 \<and> progress_currentStep 12 = 0 \<and>
   progress_currentStep 50 = 4 \<and> progress_currentStep 87 = 6 \<and>
   progress_currentStep 100 = 8"
proof (intro conjI impI)
  assume r: "0 \<le> p \<and> p \<le> 100"
  show "progress_currentStep p = \<lfloor>p / 12.5\<rfloor>"
    by (simp add: progress_currentStep_def)
  have q: "0 \<le> p / 12.5" "p / 12.5 \<le> 8" using r by simp_all
  show "0 \<le> progress_currentStep p"
    using q unfolding progress_currentStep_def by linarith
  show "progress_currentStep p \<le> 8"
    using q unfolding progress_currentStep_def by linarith
  have lo: "of_int \<lfloor>p / 12.5\<rfloor> \<le> p / 12.5" by (rule of_int_floor_le)
  have hi: "p / 12.5 < of_int \<lfloor>p / 12.5\<rfloor> + 1" by linarith
  show "12.5 * of_int (progress_currentStep p) \<le> p"
    using lo unfolding progress_currentStep_def by (simp add: field_simps)
  show "p < 12.5 * (of_int (progress_currentStep p) + 1)"
    using hi unfolding progress_currentStep_def by (simp add: field_simps)
qed (simp_all add: progress_currentStep_def)

theorem progress_currentStep_floor_witness:
  "(0 \<le> (87::real) \<and> (87::real) \<le> 100) \<and> progress_currentStep 87 = 6 \<and>
   12.5 * of_int (progress_currentStep 87) \<le> (87::real) \<and>
   (87::real) < 12.5 * (of_int (progress_currentStep 87) + 1)"
  using progress_currentStep_floor [of 87]
  by simp

section \<open>Facts about documents and paths\<close>

lemma lookup_None [simp]: "lookup None p = None"
  by (induction p) simp_all



lemma sect_empty [simp]: "sect p (JObj [])"
  by (cases p) simp_all
















lemma key_neq [simp]:
  "lit ''enabled'' \<noteq> lit ''size_threshold_chars''"
  "lit ''size_threshold_chars'' \<noteq> lit ''enabled''"
  "lit ''api_key'' \<noteq> lit ''base_url''"
  "lit ''base_url'' \<noteq> lit ''api_key''"
  by (simp_all add: lit_def)
























section \<open>Settings: saving and reloading\<close>




end
